theory Spec2Isabelle
  imports Main "HOL-Library.Word"
begin

section \<open>Machine integers, streams and outcomes\<close>

text \<open>
  C's \<^verbatim>\<open>unsigned int\<close> and \<^verbatim>\<open>int\<close> are 32-bit words. An \<^verbatim>\<open>unsigned int\<close> is read
  with \<open>unat\<close>/\<open>uint\<close>, an \<^verbatim>\<open>int\<close> with \<open>sint\<close> (two's complement).
\<close>

type_synonym c_uint = "32 word"
type_synonym c_int = "32 word"

text \<open>
  Conversion of an \<^verbatim>\<open>int\<close> to \<^verbatim>\<open>unsigned int\<close> (C11 6.3.1.3): the signed value reduced
  modulo \<open>2 ^ 32\<close>. It happens where \<^verbatim>\<open>main\<close> passes its \<^verbatim>\<open>int id\<close> to
  \<^verbatim>\<open>is_acceptable_id(unsigned int)\<close>.
\<close>

definition uint_of_int :: "c_int \<Rightarrow> c_uint" where
  "uint_of_int i = word_of_int (sint i mod 2 ^ 32)"

text \<open>Conversion of a \<^verbatim>\<open>bool\<close> to \<^verbatim>\<open>int\<close>: 0 or 1.\<close>

definition int_of_bool :: "bool \<Rightarrow> c_int" where
  "int_of_bool b = (if b then 1 else 0)"

text \<open>
  The state a run can change: the two output streams, each the sequence of the strings
  written to it, one entry per \<^verbatim>\<open>printf\<close>/\<^verbatim>\<open>fprintf\<close> call.
\<close>

record world =
  out :: "string list"
  err :: "string list"

definition init_world :: world where
  "init_world = \<lparr>out = [], err = []\<rparr>"

text \<open>
  A call either returns a value, or ends the process through \<^verbatim>\<open>abort()\<close>, or has no
  defined behaviour (a null pointer handed to a string function).
\<close>

datatype 'a outcome = Returned 'a | Aborted | Undefined_behaviour

type_synonym 'a prog = "world \<Rightarrow> 'a outcome \<times> world"

definition ret :: "'a \<Rightarrow> 'a prog" where
  "ret v w = (Returned v, w)"

text \<open>Sequencing: what follows a call runs only when the call returns.\<close>

definition bind_prog :: "'a prog \<Rightarrow> ('a \<Rightarrow> 'b prog) \<Rightarrow> 'b prog" where
  "bind_prog m f w =
     (case m w of
        (Returned v, w') \<Rightarrow> f v w'
      | (Aborted, w') \<Rightarrow> (Aborted, w')
      | (Undefined_behaviour, w') \<Rightarrow> (Undefined_behaviour, w'))"

definition printf :: "string \<Rightarrow> unit prog" where
  "printf s w = (Returned (), w\<lparr>out := out w @ [s]\<rparr>)"

definition fprintf_stderr :: "string \<Rightarrow> unit prog" where
  "fprintf_stderr s w = (Returned (), w\<lparr>err := err w @ [s]\<rparr>)"

definition abort :: "'a prog" where
  "abort w = (Aborted, w)"

text \<open>
  An existence check that only computes its answer: it writes nothing and always returns.
\<close>

definition pure_check :: "(c_uint \<Rightarrow> bool) \<Rightarrow> c_uint \<Rightarrow> bool prog" where
  "pure_check answer ident = ret (answer ident)"

definition newline :: string where
  "newline = [CHR 0x0A]"

section \<open>The C library functions that \<^verbatim>\<open>main\<close> calls\<close>

text \<open>
  GNU \<^verbatim>\<open>basename\<close> (\<^verbatim>\<open>_GNU_SOURCE\<close> with \<^verbatim>\<open>string.h\<close>): the part after the last slash,
  the whole string when there is none.
\<close>

definition basename :: "string \<Rightarrow> string" where
  "basename path = rev (takeWhile (\<lambda>c. c \<noteq> CHR ''/'') (rev path))"

text \<open>
  \<^verbatim>\<open>atoi(s)\<close> is \<^verbatim>\<open>(int) strtol(s, NULL, 10)\<close>: white space is skipped, an optional sign
  is read, then the longest run of decimal digits; no digits give 0. \<^verbatim>\<open>strtol\<close> clamps
  to the range of \<^verbatim>\<open>long\<close> (64 bits), and the cast keeps the low 32 bits.
\<close>

definition isspace :: "char \<Rightarrow> bool" where
  "isspace c = (c \<in> set [CHR '' '', CHR 0x09, CHR 0x0A, CHR 0x0B, CHR 0x0C, CHR 0x0D])"

definition isdigit :: "char \<Rightarrow> bool" where
  "isdigit c = (48 \<le> (of_char c :: nat) \<and> (of_char c :: nat) \<le> 57)"

fun digits_value :: "int \<Rightarrow> string \<Rightarrow> int" where
  "digits_value acc [] = acc"
| "digits_value acc (c # cs) =
     (if isdigit c then digits_value (acc * 10 + (of_char c - 48)) cs else acc)"

definition strtol10 :: "string \<Rightarrow> int" where
  "strtol10 s =
     (let t = dropWhile isspace s;
          v = (case t of
                 [] \<Rightarrow> 0
               | c # cs \<Rightarrow>
                   if c = CHR ''-'' then - digits_value 0 cs
                   else if c = CHR ''+'' then digits_value 0 cs
                   else digits_value 0 t)
      in max (- (2 ^ 63)) (min (2 ^ 63 - 1) v))"

definition atoi :: "string \<Rightarrow> c_int" where
  "atoi s = word_of_int (strtol10 s)"

text \<open>The conversion \<^verbatim>\<open>%d\<close> of \<^verbatim>\<open>printf\<close>: a signed value in decimal.\<close>

fun dec_digits :: "nat \<Rightarrow> string" where
  "dec_digits n =
     (if n < 10 then [''0123456789'' ! n]
      else dec_digits (n div 10) @ [''0123456789'' ! (n mod 10)])"

declare dec_digits.simps [simp del]

definition format_d :: "c_int \<Rightarrow> string" where
  "format_d i =
     (if sint i < 0 then CHR ''-'' # dec_digits (nat (- sint i)) else dec_digits (nat (sint i)))"

section \<open>otherfile.c\<close>

text \<open>The line both traps print, with \<^verbatim>\<open>__func__\<close> filled in.\<close>

definition not_supposed :: "string \<Rightarrow> string" where
  "not_supposed func = ''..... '' @ func @ '' wasn'' @ [CHR 0x27] @ ''t supposed to be called'' @ newline"

definition function_somewhere_else :: "c_int \<Rightarrow> unit prog" where
  "function_somewhere_else argument =
     bind_prog (printf (not_supposed ''function_somewhere_else'')) (\<lambda>_. abort)"

text \<open>The \<^verbatim>\<open>return true\<close> after \<^verbatim>\<open>abort()\<close> is kept: it is never reached.\<close>

definition database_id_exists :: "c_uint \<Rightarrow> bool prog" where
  "database_id_exists ident =
     bind_prog (printf (not_supposed ''database_id_exists''))
       (\<lambda>_. bind_prog abort (\<lambda>_ :: unit. ret True))"

section \<open>example.c\<close>

text \<open>
  \<^verbatim>\<open>database_id_exists\<close> is resolved when the program is linked: with otherfile.c in the
  program, with the test's own definition in the test. The function is therefore a
  parameter of everything in example.c that calls it.
\<close>

definition is_acceptable_id :: "(c_uint \<Rightarrow> bool prog) \<Rightarrow> c_uint \<Rightarrow> bool prog" where
  "is_acceptable_id db_id_exists ident =
     bind_prog (db_id_exists ident)
       (\<lambda>found. if found then ret False else ret (ident > 1000 \<and> ident < 10000))"

definition some_function :: "c_int \<Rightarrow> unit prog" where
  "some_function argument =
     bind_prog (printf (not_supposed ''some_function''))
       (\<lambda>_. function_somewhere_else argument)"

text \<open>
  \<^verbatim>\<open>main\<close>: \<open>argv\<close> is the argument vector and \<^verbatim>\<open>argc\<close> its length. With an empty vector
  \<^verbatim>\<open>argv[0]\<close> is the null pointer, which \<^verbatim>\<open>basename\<close> dereferences. The value returned
  is the exit code of the process.
\<close>

definition main :: "(c_uint \<Rightarrow> bool prog) \<Rightarrow> string list \<Rightarrow> c_int prog" where
  "main db_id_exists argv =
     (if length argv < 2 then
        (case argv of
           [] \<Rightarrow> (\<lambda>w. (Undefined_behaviour, w))
         | prog # _ \<Rightarrow>
             bind_prog (fprintf_stderr (''Usage: '' @ basename prog @ '' <id>'' @ newline))
               (\<lambda>_. ret 1))
      else
        (let ident = atoi (argv ! 1) in
         bind_prog (is_acceptable_id db_id_exists (uint_of_int ident))
           (\<lambda>r. let is_acceptable = int_of_bool r in
              bind_prog
                (printf (''ID is acceptable: '' @ format_d is_acceptable @ newline))
                (\<lambda>_. ret 0))))"

section \<open>test-example.c\<close>

definition database_id_exists_test :: "c_uint \<Rightarrow> bool prog" where
  "database_id_exists_test ident = ret False"

text \<open>\<^verbatim>\<open>assert\<close>: a false condition is reported on the error stream and aborts.\<close>

definition c_assert :: "bool \<Rightarrow> string \<Rightarrow> unit prog" where
  "c_assert cond expr =
     (if cond then ret ()
      else bind_prog (fprintf_stderr (''Assertion `'' @ expr @ [CHR 0x27] @ '' failed.'' @ newline))
             (\<lambda>_. abort))"

definition test_id :: "unit prog" where
  "test_id =
     bind_prog (is_acceptable_id database_id_exists_test 10) (\<lambda>r1.
     bind_prog (c_assert (\<not> r1) ''!is_acceptable_id(10)'') (\<lambda>_.
     bind_prog (is_acceptable_id database_id_exists_test 100) (\<lambda>r2.
     bind_prog (c_assert (\<not> r2) ''!is_acceptable_id(100)'') (\<lambda>_.
     bind_prog (is_acceptable_id database_id_exists_test 1000) (\<lambda>r3.
     bind_prog (c_assert (\<not> r3) ''!is_acceptable_id(1000)'') (\<lambda>_.
     bind_prog (is_acceptable_id database_id_exists_test 5000) (\<lambda>r4.
     bind_prog (c_assert r4 ''is_acceptable_id(5000)'') (\<lambda>_.
     bind_prog (is_acceptable_id database_id_exists_test 3000) (\<lambda>r5.
     c_assert r5 ''is_acceptable_id(3000)'')))))))))"

definition main_test :: "string list \<Rightarrow> c_int prog" where
  "main_test argv = bind_prog test_id (\<lambda>_. ret 0)"

section \<open>The acceptance predicate\<close>

lemma bind_prog_Returned:
  "m w = (Returned v, w') \<Longrightarrow> bind_prog m f w = f v w'"
  by (simp add: bind_prog_def)

lemma bind_prog_Aborted:
  "m w = (Aborted, w') \<Longrightarrow> bind_prog m f w = (Aborted, w')"
  by (simp add: bind_prog_def)

lemma is_acceptable_id_Returned:
  "db ident w = (Returned b, w') \<Longrightarrow>
   is_acceptable_id db ident w = (Returned (\<not> b \<and> 1000 < ident \<and> ident < 10000), w')"
  by (simp add: is_acceptable_id_def bind_prog_Returned ret_def)

lemma is_acceptable_id_world:
  "snd (is_acceptable_id db ident w) = snd (db ident w)"
  by (cases "db ident w")
     (simp add: is_acceptable_id_def bind_prog_def ret_def split: outcome.splits)

lemma database_id_exists_test_False:
  "database_id_exists_test ident w = (Returned False, w)"
  by (simp add: database_id_exists_test_def ret_def)

lemma database_id_exists_aborts:
  "database_id_exists ident w =
     (Aborted, w\<lparr>out := out w @ [not_supposed ''database_id_exists'']\<rparr>)"
  by (simp add: database_id_exists_def bind_prog_def printf_def abort_def)

lemma function_somewhere_else_aborts:
  "function_somewhere_else argument w =
     (Aborted, w\<lparr>out := out w @ [not_supposed ''function_somewhere_else'']\<rparr>)"
  by (simp add: function_somewhere_else_def bind_prog_def printf_def abort_def)

text \<open>
  C1. Whenever the existence check returns false for an identifier, \<open>is_acceptable_id\<close>
  returns true exactly when the identifier, read as an unsigned number, is strictly
  between 1000 and 10000.
\<close>

theorem is_acceptable_id_absent_iff_range:
  "db ident w = (Returned False, w') \<Longrightarrow>
   is_acceptable_id db ident w = (Returned (1000 < unat ident \<and> unat ident < 10000), w')"
  using is_acceptable_id_Returned [of db ident w False w']
  by (simp add: word_less_nat_alt)

theorem is_acceptable_id_absent_iff_range_witness:
  "database_id_exists_test 3000 init_world = (Returned False, init_world) \<and>
   is_acceptable_id database_id_exists_test 3000 init_world = (Returned True, init_world) \<and>
   database_id_exists_test 10000 init_world = (Returned False, init_world) \<and>
   is_acceptable_id database_id_exists_test 10000 init_world = (Returned False, init_world)"
  using is_acceptable_id_absent_iff_range
          [of database_id_exists_test 3000 init_world init_world]
        is_acceptable_id_absent_iff_range
          [of database_id_exists_test 10000 init_world init_world]
  by (simp add: database_id_exists_test_False)

text \<open>
  C2. Whenever the existence check returns true, \<open>is_acceptable_id\<close> returns false,
  whatever the identifier. The check is run on every call and before the range is
  looked at: what the check writes is always what the call has written, and when the
  check aborts the call aborts, in range or not.
\<close>

theorem existence_check_first:
  "(db ident w = (Returned True, w') \<longrightarrow>
      is_acceptable_id db ident w = (Returned False, w')) \<and>
   (db ident w = (Aborted, w') \<longrightarrow> is_acceptable_id db ident w = (Aborted, w')) \<and>
   snd (is_acceptable_id db ident w) = snd (db ident w)"
proof (intro conjI impI)
  assume "db ident w = (Returned True, w')"
  then show "is_acceptable_id db ident w = (Returned False, w')"
    using is_acceptable_id_Returned [of db ident w True w'] by simp
next
  assume "db ident w = (Aborted, w')"
  then show "is_acceptable_id db ident w = (Aborted, w')"
    by (simp add: is_acceptable_id_def bind_prog_Aborted)
next
  show "snd (is_acceptable_id db ident w) = snd (db ident w)"
    by (rule is_acceptable_id_world)
qed

theorem existence_check_first_witness:
  "pure_check (\<lambda>_. True) 5000 init_world = (Returned True, init_world) \<and>
   is_acceptable_id (pure_check (\<lambda>_. True)) 5000 init_world = (Returned False, init_world) \<and>
   database_id_exists 5000 init_world =
     (Aborted, init_world\<lparr>out := [not_supposed ''database_id_exists'']\<rparr>) \<and>
   is_acceptable_id database_id_exists 5000 init_world =
     (Aborted, init_world\<lparr>out := [not_supposed ''database_id_exists'']\<rparr>)"
  using existence_check_first
          [of "pure_check (\<lambda>_. True)" 5000 init_world init_world]
        existence_check_first
          [of database_id_exists 5000 init_world
              "init_world\<lparr>out := [not_supposed ''database_id_exists'']\<rparr>"]
  by (simp add: pure_check_def ret_def database_id_exists_aborts init_world_def)

text \<open>
  C3. For an identifier that is at most 1000 or at least 10000, \<open>is_acceptable_id\<close>
  returns false whichever answer the existence check returns.
\<close>

theorem is_acceptable_id_out_of_range:
  "db ident w = (Returned b, w') \<Longrightarrow> unat ident \<le> 1000 \<or> 10000 \<le> unat ident \<Longrightarrow>
   is_acceptable_id db ident w = (Returned False, w')"
  using is_acceptable_id_Returned [of db ident w b w']
  by (auto simp add: word_less_nat_alt)

theorem is_acceptable_id_out_of_range_witness:
  "database_id_exists_test 1000 init_world = (Returned False, init_world) \<and>
   unat (1000 :: c_uint) \<le> 1000 \<and>
   is_acceptable_id database_id_exists_test 1000 init_world = (Returned False, init_world) \<and>
   pure_check (\<lambda>_. True) 10000 init_world = (Returned True, init_world) \<and>
   10000 \<le> unat (10000 :: c_uint) \<and>
   is_acceptable_id (pure_check (\<lambda>_. True)) 10000 init_world = (Returned False, init_world)"
  using is_acceptable_id_out_of_range
          [of database_id_exists_test 1000 init_world False init_world]
        is_acceptable_id_out_of_range
          [of "pure_check (\<lambda>_. True)" 10000 init_world True init_world]
  by (simp add: database_id_exists_test_False pure_check_def ret_def)

text \<open>
  C4. With the test's existence check, which returns false for every identifier,
  \<open>is_acceptable_id\<close> returns false for 10, 100, 1000 and 10000 and true for 3000, 5000
  and 9999, and leaves the streams as they were.
\<close>

theorem is_acceptable_id_boundary_literals:
  "is_acceptable_id database_id_exists_test 10 w = (Returned False, w) \<and>
   is_acceptable_id database_id_exists_test 100 w = (Returned False, w) \<and>
   is_acceptable_id database_id_exists_test 1000 w = (Returned False, w) \<and>
   is_acceptable_id database_id_exists_test 10000 w = (Returned False, w) \<and>
   is_acceptable_id database_id_exists_test 3000 w = (Returned True, w) \<and>
   is_acceptable_id database_id_exists_test 5000 w = (Returned True, w) \<and>
   is_acceptable_id database_id_exists_test 9999 w = (Returned True, w)"
  by (simp add: is_acceptable_id_def database_id_exists_test_def bind_prog_def ret_def)

text \<open>
  C9. For an existence check that is a function of the identifier alone,
  \<open>is_acceptable_id\<close> changes nothing, its result does not depend on the state it is
  called in, and two calls in a row with the same identifier return the same boolean.
\<close>

theorem is_acceptable_id_pure:
  "snd (is_acceptable_id (pure_check answer) ident w) = w \<and>
   fst (is_acceptable_id (pure_check answer) ident w1) =
     fst (is_acceptable_id (pure_check answer) ident w2) \<and>
   bind_prog (is_acceptable_id (pure_check answer) ident) (\<lambda>r1.
     bind_prog (is_acceptable_id (pure_check answer) ident) (\<lambda>r2. ret (r1 = r2))) w =
     (Returned True, w)"
  by (simp add: is_acceptable_id_def pure_check_def bind_prog_def ret_def)

section \<open>The traps of otherfile.c\<close>

text \<open>
  C7. Each of the two functions of otherfile.c writes its one diagnostic line to
  standard output and then aborts; neither returns a value, whatever its argument and
  whatever the state it is called in.
\<close>

theorem production_collaborators_abort:
  "database_id_exists ident w =
     (Aborted, w\<lparr>out := out w @ [not_supposed ''database_id_exists'']\<rparr>) \<and>
   function_somewhere_else argument w =
     (Aborted, w\<lparr>out := out w @ [not_supposed ''function_somewhere_else'']\<rparr>) \<and>
   (\<forall>v. fst (database_id_exists ident w) \<noteq> Returned v) \<and>
   (\<forall>v. fst (function_somewhere_else argument w) \<noteq> Returned v) \<and>
   count_list (not_supposed ''database_id_exists'') (CHR 0x0A) = 1 \<and>
   count_list (not_supposed ''function_somewhere_else'') (CHR 0x0A) = 1"
  by (simp add: database_id_exists_aborts function_somewhere_else_aborts
        not_supposed_def newline_def)

section \<open>The entry point\<close>

lemma uint_of_int_same_bits: "uint_of_int i = i"
proof -
  have low: "word_of_int (take_bit 32 k) = (word_of_int k :: 32 word)" for k
    by (subst word_of_int_eq_iff) simp
  have "uint_of_int i = word_of_int (take_bit 32 (sint i))"
    by (simp only: uint_of_int_def take_bit_eq_mod)
  also have "\<dots> = word_of_int (sint i)" by (rule low)
  also have "\<dots> = i" by simp
  finally show ?thesis .
qed

lemma format_d_int_of_bool: "format_d (int_of_bool b) = (if b then ''1'' else ''0'')"
  by (simp add: format_d_def int_of_bool_def dec_digits.simps)

lemma main_usage:
  "main db [prog] w =
     (Returned 1, w\<lparr>err := err w @ [''Usage: '' @ basename prog @ '' <id>'' @ newline]\<rparr>)"
  by (simp add: main_def bind_prog_def fprintf_stderr_def ret_def)

lemma main_with_id:
  assumes "db (uint_of_int (atoi s)) w = (Returned b, w')"
  shows "main db (prog # s # rest) w =
     (Returned 0,
      w'\<lparr>out := out w' @
         [''ID is acceptable: '' @
          (if \<not> b \<and> 1000 < uint_of_int (atoi s) \<and> uint_of_int (atoi s) < 10000
           then ''1'' else ''0'') @ newline]\<rparr>)"
proof -
  have "is_acceptable_id db (uint_of_int (atoi s)) w =
          (Returned (\<not> b \<and> 1000 < uint_of_int (atoi s) \<and> uint_of_int (atoi s) < 10000), w')"
    using assms by (rule is_acceptable_id_Returned)
  then show ?thesis
    by (simp add: main_def Let_def bind_prog_Returned format_d_int_of_bool printf_def
          ret_def bind_prog_def)
qed

lemma main_trapped:
  "main database_id_exists (prog # s # rest) w =
     (Aborted, w\<lparr>out := out w @ [not_supposed ''database_id_exists'']\<rparr>)"
proof -
  have "is_acceptable_id database_id_exists (uint_of_int (atoi s)) w =
          (Aborted, w\<lparr>out := out w @ [not_supposed ''database_id_exists'']\<rparr>)"
    by (simp add: is_acceptable_id_def bind_prog_Aborted database_id_exists_aborts)
  then show ?thesis
    by (simp add: main_def Let_def bind_prog_Aborted)
qed

lemma atoi_3000: "atoi ''3000'' = 3000"
  by (simp add: atoi_def strtol10_def isspace_def isdigit_def)

lemma atoi_minus_5: "atoi ''-5'' = - 5"
  by (simp add: atoi_def strtol10_def isspace_def isdigit_def)

lemma negative_int_as_uint:
  assumes "sint (i :: c_int) < 0"
  shows "uint (uint_of_int i) = sint i mod 2 ^ 32" and "2 ^ 31 \<le> uint (uint_of_int i)"
proof -
  show eq: "uint (uint_of_int i) = sint i mod 2 ^ 32"
    by (simp add: uint_of_int_def uint_word_of_int)
  have lower: "- (2 ^ 31) \<le> sint i"
    using sint_ge [of i] by simp
  have "sint i mod 2 ^ 32 = sint i + 2 ^ 32"
    using assms lower by (simp add: int_mod_pos_eq [of _ _ "- 1"])
  then show "2 ^ 31 \<le> uint (uint_of_int i)"
    using eq lower by simp
qed

text \<open>
  C5, as the code has it. Started with its name alone, \<open>main\<close> writes the usage line,
  naming the program, to the error stream and returns exit code 1. With an identifier
  argument, and an existence check that returns for it, \<open>main\<close> writes
  \<^verbatim>\<open>ID is acceptable: 0\<close> or \<^verbatim>\<open>ID is acceptable: 1\<close> to standard output after whatever
  the check has written, and returns exit code 0; the digit is 1 exactly when the check
  answered false and the identifier is strictly between 1000 and 10000.
\<close>

theorem main_exit_codes:
  "(length argv = 1 \<longrightarrow>
      main db argv w =
        (Returned 1,
         w\<lparr>err := err w @ [''Usage: '' @ basename (argv ! 0) @ '' <id>'' @ newline]\<rparr>)) \<and>
   (2 \<le> length argv \<and> db (uint_of_int (atoi (argv ! 1))) w = (Returned b, w') \<longrightarrow>
      main db argv w =
        (Returned 0,
         w'\<lparr>out := out w' @
            [''ID is acceptable: '' @
             (if \<not> b \<and> 1000 < uint_of_int (atoi (argv ! 1)) \<and>
                 uint_of_int (atoi (argv ! 1)) < 10000
              then ''1'' else ''0'') @ newline]\<rparr>))"
proof (intro conjI impI)
  assume "length argv = 1"
  then obtain prog where "argv = [prog]"
    by (cases argv) auto
  then show "main db argv w =
      (Returned 1,
       w\<lparr>err := err w @ [''Usage: '' @ basename (argv ! 0) @ '' <id>'' @ newline]\<rparr>)"
    by (simp add: main_usage)
next
  assume a: "2 \<le> length argv \<and> db (uint_of_int (atoi (argv ! 1))) w = (Returned b, w')"
  then obtain prog s rest where argv: "argv = prog # s # rest"
    by (cases argv; cases "tl argv") auto
  with a have "db (uint_of_int (atoi s)) w = (Returned b, w')"
    by simp
  then show "main db argv w =
      (Returned 0,
       w'\<lparr>out := out w' @
          [''ID is acceptable: '' @
           (if \<not> b \<and> 1000 < uint_of_int (atoi (argv ! 1)) \<and>
               uint_of_int (atoi (argv ! 1)) < 10000
            then ''1'' else ''0'') @ newline]\<rparr>)"
    unfolding argv by (simp add: main_with_id)
qed

theorem main_exit_codes_witness:
  "length [''./example''] = 1 \<and>
   main database_id_exists_test [''./example''] init_world =
     (Returned 1, init_world\<lparr>err := [''Usage: example <id>'' @ newline]\<rparr>) \<and>
   2 \<le> length [''./example'', ''3000''] \<and>
   database_id_exists_test (uint_of_int (atoi ([''./example'', ''3000''] ! 1))) init_world =
     (Returned False, init_world) \<and>
   main database_id_exists_test [''./example'', ''3000''] init_world =
     (Returned 0, init_world\<lparr>out := [''ID is acceptable: 1'' @ newline]\<rparr>)"
  using main_exit_codes
          [of "[''./example'']" database_id_exists_test init_world False init_world]
        main_exit_codes
          [of "[''./example'', ''3000'']" database_id_exists_test init_world False init_world]
  by (simp add: database_id_exists_test_False atoi_3000 uint_of_int_same_bits
        basename_def init_world_def)

text \<open>
  The program as built from example.c and otherfile.c, run with the argument 3000: it
  does not exit with code 0, it is aborted by the trap in \<open>database_id_exists\<close>.
\<close>

theorem main_exit_codes_counterexample:
  "main database_id_exists [''./example'', ''3000''] init_world =
     (Aborted, init_world\<lparr>out := [not_supposed ''database_id_exists'']\<rparr>) \<and>
   fst (main database_id_exists [''./example'', ''3000''] init_world) \<noteq> Returned 0"
  by (simp add: main_trapped init_world_def)

text \<open>
  C6. With an existence check that returns false for 3000, \<open>main\<close> run with the single
  argument \<^verbatim>\<open>3000\<close> writes \<^verbatim>\<open>ID is acceptable: 1\<close> to standard output and returns exit
  code 0; run with no argument it writes the usage line to the error stream and returns
  exit code 1.
\<close>

theorem main_end_to_end:
  "db 3000 w = (Returned False, w') \<Longrightarrow>
   main db [prog, ''3000''] w =
     (Returned 0, w'\<lparr>out := out w' @ [''ID is acceptable: 1'' @ newline]\<rparr>) \<and>
   main db [prog] w =
     (Returned 1, w\<lparr>err := err w @ [''Usage: '' @ basename prog @ '' <id>'' @ newline]\<rparr>)"
  using main_with_id [of db "''3000''" w False w' prog "[]"]
  by (simp add: main_usage atoi_3000 uint_of_int_same_bits)

theorem main_end_to_end_witness:
  "database_id_exists_test 3000 init_world = (Returned False, init_world) \<and>
   main database_id_exists_test [''/usr/bin/example'', ''3000''] init_world =
     (Returned 0, init_world\<lparr>out := [''ID is acceptable: 1'' @ newline]\<rparr>) \<and>
   main database_id_exists_test [''/usr/bin/example''] init_world =
     (Returned 1, init_world\<lparr>err := [''Usage: example <id>'' @ newline]\<rparr>)"
  using main_end_to_end
          [of database_id_exists_test init_world init_world "''/usr/bin/example''"]
  by (simp add: database_id_exists_test_False basename_def init_world_def)

text \<open>
  C10. \<open>main\<close> hands the \<^verbatim>\<open>int\<close> that \<open>atoi\<close> returns to the \<^verbatim>\<open>unsigned int\<close> parameter
  of \<open>is_acceptable_id\<close>. When that \<^verbatim>\<open>int\<close> is negative, the identifier is its value
  modulo \<open>2 ^ 32\<close>, which is at least \<open>2 ^ 31\<close>; with an existence check that returns
  false for it, \<open>main\<close> writes \<^verbatim>\<open>ID is acceptable: 0\<close> and returns exit code 0.
\<close>

theorem main_negative_id:
  "sint (atoi s) < 0 \<Longrightarrow> db (uint_of_int (atoi s)) w = (Returned False, w') \<Longrightarrow>
   uint (uint_of_int (atoi s)) = sint (atoi s) mod 2 ^ 32 \<and>
   2 ^ 31 \<le> uint (uint_of_int (atoi s)) \<and>
   main db (prog # s # rest) w =
     (Returned 0, w'\<lparr>out := out w' @ [''ID is acceptable: 0'' @ newline]\<rparr>)"
proof (intro conjI)
  assume neg: "sint (atoi s) < 0"
    and absent: "db (uint_of_int (atoi s)) w = (Returned False, w')"
  show "uint (uint_of_int (atoi s)) = sint (atoi s) mod 2 ^ 32"
    using neg by (rule negative_int_as_uint)
  show big: "2 ^ 31 \<le> uint (uint_of_int (atoi s))"
    using neg by (rule negative_int_as_uint)
  have "\<not> uint_of_int (atoi s) < 10000"
    using big by (simp add: word_less_def)
  then show "main db (prog # s # rest) w =
      (Returned 0, w'\<lparr>out := out w' @ [''ID is acceptable: 0'' @ newline]\<rparr>)"
    using absent main_with_id [of db s w False w' prog rest] by simp
qed

theorem main_negative_id_witness:
  "sint (atoi ''-5'') < 0 \<and>
   database_id_exists_test (uint_of_int (atoi ''-5'')) init_world =
     (Returned False, init_world) \<and>
   uint (uint_of_int (atoi ''-5'')) = 4294967291 \<and>
   main database_id_exists_test [''./example'', ''-5''] init_world =
     (Returned 0, init_world\<lparr>out := [''ID is acceptable: 0'' @ newline]\<rparr>)"
  using main_negative_id
          [of "''-5''" database_id_exists_test init_world init_world "''./example''" "[]"]
  by (simp add: database_id_exists_test_False atoi_minus_5 init_world_def)

section \<open>Which functions a run reaches\<close>

text \<open>
  \<open>some_function\<close> and \<open>function_somewhere_else\<close> each begin by writing their own
  diagnostic line, so a run has called one of them exactly when that line is among the
  strings written to standard output.
\<close>

lemma some_function_aborts:
  "some_function argument w =
     (Aborted, w\<lparr>out := out w @ [not_supposed ''some_function'',
                                   not_supposed ''function_somewhere_else'']\<rparr>)"
  by (simp add: some_function_def bind_prog_def printf_def function_somewhere_else_aborts)

lemma test_id_passes: "test_id w = (Returned (), w)"
  by (simp add: test_id_def is_acceptable_id_def database_id_exists_test_def c_assert_def
        bind_prog_def ret_def)

lemma main_test_passes: "main_test argv w = (Returned 0, w)"
  by (simp add: main_test_def bind_prog_def test_id_passes ret_def)

lemma main_production_out:
  "out (snd (main database_id_exists argv init_world)) =
     (if length argv < 2 then [] else [not_supposed ''database_id_exists''])"
proof (cases argv)
  case Nil
  then show ?thesis by (simp add: main_def init_world_def)
next
  case (Cons prog args)
  show ?thesis
  proof (cases args)
    case Nil
    with Cons show ?thesis by (simp add: main_usage init_world_def)
  next
    case (Cons s rest)
    with \<open>argv = prog # args\<close> show ?thesis by (simp add: main_trapped init_world_def)
  qed
qed

lemma main_returning_out:
  "out (snd (main (pure_check answer) argv init_world)) =
     (if length argv < 2 then []
      else [''ID is acceptable: '' @
            (if \<not> answer (uint_of_int (atoi (argv ! 1))) \<and>
                1000 < uint_of_int (atoi (argv ! 1)) \<and>
                uint_of_int (atoi (argv ! 1)) < 10000
             then ''1'' else ''0'') @ newline])"
proof (cases argv)
  case Nil
  then show ?thesis by (simp add: main_def init_world_def)
next
  case (Cons prog args)
  show ?thesis
  proof (cases args)
    case Nil
    with Cons show ?thesis by (simp add: main_usage init_world_def)
  next
    case (Cons s rest)
    have "pure_check answer (uint_of_int (atoi s)) init_world =
            (Returned (answer (uint_of_int (atoi s))), init_world)"
      by (simp add: pure_check_def ret_def)
    then have "main (pure_check answer) (prog # s # rest) init_world =
        (Returned 0,
         init_world\<lparr>out := out init_world @
            [''ID is acceptable: '' @
             (if \<not> answer (uint_of_int (atoi s)) \<and> 1000 < uint_of_int (atoi s) \<and>
                 uint_of_int (atoi s) < 10000
              then ''1'' else ''0'') @ newline]\<rparr>)"
      by (rule main_with_id)
    with Cons \<open>argv = prog # args\<close> show ?thesis
      by (simp add: init_world_def)
  qed
qed

lemma database_id_exists_test_pure:
  "database_id_exists_test = pure_check (\<lambda>_. False)"
  by (rule ext) (simp add: database_id_exists_test_def pure_check_def)

text \<open>
  C8. No run of \<open>main\<close> from the start of the process, for any argument vector, writes
  the diagnostic line of \<open>some_function\<close> or of \<open>function_somewhere_else\<close>: not when it
  is linked with otherfile.c, where the existence check aborts, and not when the
  existence check returns an answer (any function of the identifier, the test's
  fixed-false one among them), where \<open>main\<close> runs on to its end. The run of the test
  program does not write those lines either. A call of either function would have
  written its line, so neither function is called.
\<close>

theorem traps_never_reached:
  "not_supposed ''some_function'' \<notin>
     set (out (snd (main database_id_exists argv init_world))) \<and>
   not_supposed ''function_somewhere_else'' \<notin>
     set (out (snd (main database_id_exists argv init_world))) \<and>
   not_supposed ''some_function'' \<notin>
     set (out (snd (main (pure_check answer) argv init_world))) \<and>
   not_supposed ''function_somewhere_else'' \<notin>
     set (out (snd (main (pure_check answer) argv init_world))) \<and>
   not_supposed ''some_function'' \<notin>
     set (out (snd (main database_id_exists_test argv init_world))) \<and>
   not_supposed ''function_somewhere_else'' \<notin>
     set (out (snd (main database_id_exists_test argv init_world))) \<and>
   not_supposed ''some_function'' \<notin> set (out (snd (main_test argv init_world))) \<and>
   not_supposed ''function_somewhere_else'' \<notin> set (out (snd (main_test argv init_world))) \<and>
   not_supposed ''some_function'' \<in> set (out (snd (some_function argument w))) \<and>
   not_supposed ''function_somewhere_else'' \<in> set (out (snd (some_function argument w))) \<and>
   not_supposed ''function_somewhere_else'' \<in>
     set (out (snd (function_somewhere_else argument w)))"
proof -
  have differ:
    "not_supposed ''some_function'' \<noteq> not_supposed ''database_id_exists''"
    "not_supposed ''function_somewhere_else'' \<noteq> not_supposed ''database_id_exists''"
    by (simp_all add: not_supposed_def)
  have differ_result:
    "not_supposed func \<noteq> ''ID is acceptable: '' @ digit @ newline" for func digit
    by (simp add: not_supposed_def)
  have production:
    "set (out (snd (main database_id_exists argv init_world))) \<subseteq>
       {not_supposed ''database_id_exists''}"
    by (simp add: main_production_out)
  have returning:
    "line \<notin> set (out (snd (main (pure_check ans) argv init_world)))"
    if "\<And>digit. line \<noteq> ''ID is acceptable: '' @ digit @ newline" for line ans
    using that [of "''0''"] that [of "''1''"]
    by (simp add: main_returning_out)
  have test: "out (snd (main_test argv init_world)) = []"
    by (simp add: main_test_passes init_world_def)
  show ?thesis
  proof (intro conjI)
    show "not_supposed ''some_function'' \<notin>
        set (out (snd (main database_id_exists argv init_world)))"
      using production differ by auto
    show "not_supposed ''function_somewhere_else'' \<notin>
        set (out (snd (main database_id_exists argv init_world)))"
      using production differ by auto
    show "not_supposed ''some_function'' \<notin>
        set (out (snd (main (pure_check answer) argv init_world)))"
      by (rule returning) (rule differ_result)
    show "not_supposed ''function_somewhere_else'' \<notin>
        set (out (snd (main (pure_check answer) argv init_world)))"
      by (rule returning) (rule differ_result)
    show "not_supposed ''some_function'' \<notin>
        set (out (snd (main database_id_exists_test argv init_world)))"
      unfolding database_id_exists_test_pure by (rule returning) (rule differ_result)
    show "not_supposed ''function_somewhere_else'' \<notin>
        set (out (snd (main database_id_exists_test argv init_world)))"
      unfolding database_id_exists_test_pure by (rule returning) (rule differ_result)
    show "not_supposed ''some_function'' \<notin> set (out (snd (main_test argv init_world)))"
      by (simp add: test)
    show "not_supposed ''function_somewhere_else'' \<notin>
        set (out (snd (main_test argv init_world)))"
      by (simp add: test)
    show "not_supposed ''some_function'' \<in> set (out (snd (some_function argument w)))"
      by (simp add: some_function_aborts)
    show "not_supposed ''function_somewhere_else'' \<in>
        set (out (snd (some_function argument w)))"
      by (simp add: some_function_aborts)
    show "not_supposed ''function_somewhere_else'' \<in>
        set (out (snd (function_somewhere_else argument w)))"
      by (simp add: function_somewhere_else_aborts)
  qed
qed

end
